theory Spec2Isabelle
  imports
    Main
    "HOL-Library.Sublist"
    "HOL-Library.Char_ord"
    "HOL-Library.List_Lexorder"
    "HOL-Library.AList"
begin

section \<open>Markdown server: a shallow embedding of \<^verbatim>\<open>md_server.py\<close>\<close>

text \<open>
  The program is a request handler over a file system. The handler methods
  (\<^verbatim>\<open>do_GET\<close>, \<^verbatim>\<open>do_POST\<close>, \<^verbatim>\<open>serve_index\<close>, \<^verbatim>\<open>serve_markdown\<close>, \<^verbatim>\<open>serve_editor\<close>,
  \<^verbatim>\<open>save_markdown\<close>) are translated line by line. What they call in Python's standard
  library (string methods, \<^verbatim>\<open>urllib.parse.unquote\<close>, \<^verbatim>\<open>pathlib\<close>, \<^verbatim>\<open>os.walk\<close>, text files) is
  modelled below as CPython 3.10 to 3.12 behaves on a POSIX system.

  A Python \<^verbatim>\<open>str\<close> is represented by its UTF-8 encoding, one \<^typ>\<open>char\<close> per byte. Every
  pattern the program searches for is ASCII, and an ASCII byte never occurs inside a
  multi-byte UTF-8 sequence, so searching the encoding finds what searching the code
  points finds; byte order of encodings is code point order.
\<close>

subsection \<open>String methods\<close>

definition startswith :: "string \<Rightarrow> string \<Rightarrow> bool" where
  "startswith s p = (take (length p) s = p)"

definition endswith :: "string \<Rightarrow> string \<Rightarrow> bool" where
  "endswith s p = (length p \<le> length s \<and> drop (length s - length p) s = p)"

text \<open>\<^verbatim>\<open>s.replace(old, new, 1)\<close>: the leftmost occurrence only.\<close>

fun replace_first :: "string \<Rightarrow> string \<Rightarrow> string \<Rightarrow> string" where
  "replace_first old new [] = (if old = [] then new else [])"
| "replace_first old new (c # cs) =
     (if take (length old) (c # cs) = old then new @ drop (length old) (c # cs)
      else c # replace_first old new cs)"

text \<open>
  \<^verbatim>\<open>s.replace(old, new)\<close>: every occurrence, found left to right without overlap. An
  empty \<^verbatim>\<open>old\<close> matches before each character and at the end.
\<close>

function replace_all :: "string \<Rightarrow> string \<Rightarrow> string \<Rightarrow> string" where
  "replace_all old new s =
     (if old = [] then new @ concat (map (\<lambda>c. c # new) s)
      else if s = [] then []
      else if take (length old) s = old
        then new @ replace_all old new (drop (length old) s)
      else hd s # replace_all old new (tl s))"
  by pat_completeness auto
termination
  by (relation "measure (\<lambda>(old, new, s). length s)") (auto simp: neq_Nil_conv)

declare replace_all.simps [simp del]

definition lstrip :: "string \<Rightarrow> string \<Rightarrow> string" where
  "lstrip s chars = dropWhile (\<lambda>c. c \<in> set chars) s"

text \<open>\<^verbatim>\<open>s.split(sep)\<close> for a one-character separator, and \<^verbatim>\<open>sep.join(words)\<close>.\<close>

fun split_sep :: "char \<Rightarrow> string \<Rightarrow> string list" where
  "split_sep sep [] = [[]]"
| "split_sep sep (c # cs) =
     (if c = sep then [] # split_sep sep cs
      else (case split_sep sep cs of
              [] \<Rightarrow> [[c]]
            | w # ws \<Rightarrow> (c # w) # ws))"

fun join_sep :: "char \<Rightarrow> string list \<Rightarrow> string" where
  "join_sep sep [] = []"
| "join_sep sep [w] = w"
| "join_sep sep (w # ws) = w @ sep # join_sep sep ws"

subsection \<open>UTF-8\<close>

text \<open>
  The well-formed byte sequences of UTF-8 (Unicode, table 3-7): for a lead byte, the
  ranges its trailing bytes must lie in. \<open>None\<close>: the byte starts no sequence.
\<close>

definition lead_ranges :: "nat \<Rightarrow> (nat \<times> nat) list option" where
  "lead_ranges x =
     (if x < 0x80 then Some []
      else if x < 0xC2 then None
      else if x \<le> 0xDF then Some [(0x80, 0xBF)]
      else if x = 0xE0 then Some [(0xA0, 0xBF), (0x80, 0xBF)]
      else if x = 0xED then Some [(0x80, 0x9F), (0x80, 0xBF)]
      else if x \<le> 0xEF then Some [(0x80, 0xBF), (0x80, 0xBF)]
      else if x = 0xF0 then Some [(0x90, 0xBF), (0x80, 0xBF), (0x80, 0xBF)]
      else if x \<le> 0xF3 then Some [(0x80, 0xBF), (0x80, 0xBF), (0x80, 0xBF)]
      else if x = 0xF4 then Some [(0x80, 0x8F), (0x80, 0xBF), (0x80, 0xBF)]
      else None)"

text \<open>How many of the bytes match the ranges in turn, and whether all ranges are met.\<close>

fun match_ranges :: "(nat \<times> nat) list \<Rightarrow> string \<Rightarrow> nat \<times> bool" where
  "match_ranges [] bs = (0, True)"
| "match_ranges (r # rs) [] = (0, False)"
| "match_ranges (r # rs) (b # bs) =
     (if fst r \<le> of_char b \<and> of_char b \<le> snd r
      then (Suc (fst (match_ranges rs bs)), snd (match_ranges rs bs))
      else (0, False))"

function utf8_valid :: "string \<Rightarrow> bool" where
  "utf8_valid [] = True"
| "utf8_valid (a # bs) =
     (case lead_ranges (of_char a) of
        None \<Rightarrow> False
      | Some rs \<Rightarrow>
          snd (match_ranges rs bs) \<and> utf8_valid (drop (fst (match_ranges rs bs)) bs))"
  by pat_completeness auto
termination
  by (relation "measure length") auto

text \<open>
  \<^verbatim>\<open>bytes.decode("utf-8", "replace")\<close>: each maximal ill-formed run becomes U+FFFD
  (bytes EF BF BD) and decoding resumes at the byte that did not fit.
\<close>

function utf8_replace :: "string \<Rightarrow> string" where
  "utf8_replace [] = []"
| "utf8_replace (a # bs) =
     (case lead_ranges (of_char a) of
        None \<Rightarrow> [CHR 0xEF, CHR 0xBF, CHR 0xBD] @ utf8_replace bs
      | Some rs \<Rightarrow>
          (if snd (match_ranges rs bs) then a # take (fst (match_ranges rs bs)) bs
           else [CHR 0xEF, CHR 0xBF, CHR 0xBD])
          @ utf8_replace (drop (fst (match_ranges rs bs)) bs))"
  by pat_completeness auto
termination
  by (relation "measure length") auto

text \<open>Python's exceptions, each with the text \<^verbatim>\<open>str(e)\<close> returns.\<close>

datatype exn =
    ValueError string
  | UnicodeDecodeError string
  | RuntimeError string
  | TypeError string
  | OSError string
  | Exception string

fun str_exn :: "exn \<Rightarrow> string" where
  "str_exn (ValueError m) = m"
| "str_exn (UnicodeDecodeError m) = m"
| "str_exn (RuntimeError m) = m"
| "str_exn (TypeError m) = m"
| "str_exn (OSError m) = m"
| "str_exn (Exception m) = m"

text \<open>\<^verbatim>\<open>except ValueError\<close> also catches its subclass \<^verbatim>\<open>UnicodeDecodeError\<close>.\<close>

fun is_ValueError :: "exn \<Rightarrow> bool" where
  "is_ValueError (ValueError m) = True"
| "is_ValueError (UnicodeDecodeError m) = True"
| "is_ValueError _ = False"

text \<open>\<^verbatim>\<open>bytes.decode("utf-8")\<close>: strict.\<close>

definition decode_utf8 :: "string \<Rightarrow> exn + string" where
  "decode_utf8 bs =
     (if utf8_valid bs then Inr bs
      else Inl (UnicodeDecodeError ''utf-8 codec cannot decode bytes''))"

subsection \<open>Percent-decoding\<close>

definition hexval :: "char \<Rightarrow> nat option" where
  "hexval c =
     (let n = of_char c :: nat in
      if 48 \<le> n \<and> n \<le> 57 then Some (n - 48)
      else if 65 \<le> n \<and> n \<le> 70 then Some (n - 55)
      else if 97 \<le> n \<and> n \<le> 102 then Some (n - 87)
      else None)"

text \<open>
  \<^verbatim>\<open>urllib.parse.unquote_to_bytes\<close>: \<^verbatim>\<open>%XY\<close> with two hexadecimal digits becomes the byte;
  any other \<^verbatim>\<open>%\<close> stays.
\<close>

fun unquote_to_bytes :: "string \<Rightarrow> string" where
  "unquote_to_bytes (p # a # b # rest) =
     (if p = CHR ''%'' then
        (case (hexval a, hexval b) of
           (Some h, Some l) \<Rightarrow> char_of (16 * h + l) # unquote_to_bytes rest
         | _ \<Rightarrow> p # unquote_to_bytes (a # b # rest))
      else p # unquote_to_bytes (a # b # rest))"
| "unquote_to_bytes cs = cs"

text \<open>\<^verbatim>\<open>urllib.parse.unquote(s)\<close>: the decoded bytes, read as UTF-8 with replacement.\<close>

definition unquote :: "string \<Rightarrow> string" where
  "unquote s = utf8_replace (unquote_to_bytes s)"

subsection \<open>The file system\<close>

text \<open>
  A tree of regular files (their bytes), directories (their entries by name) and symbolic
  links (their target, as stored). A path is the list of its components below \<^verbatim>\<open>/\<close>.
\<close>

datatype node = File string | Dir "(string \<times> node) list" | Link string

type_synonym path = "string list"

text \<open>\<^verbatim>\<open>lstat\<close>: the node at a path that is walked as written, following no link.\<close>

fun lookup :: "node \<Rightarrow> path \<Rightarrow> node option" where
  "lookup n [] = Some n"
| "lookup (Dir es) (x # xs) =
     (case map_of es x of None \<Rightarrow> None | Some c \<Rightarrow> lookup c xs)"
| "lookup n (x # xs) = None"

text \<open>
  The tree with the node at a path replaced, or added when only its last component is
  new; unchanged when the path leads through something that is no directory.
\<close>

fun put :: "node \<Rightarrow> path \<Rightarrow> node \<Rightarrow> node" where
  "put n [] v = v"
| "put (Dir es) (x # xs) v =
     (case map_of es x of
        Some c \<Rightarrow> Dir (AList.update x (put c xs v) es)
      | None \<Rightarrow> if xs = [] then Dir (AList.update x v es) else Dir es)"
| "put n (x # xs) v = n"

text \<open>The kernel's bound on the links followed in one path resolution (Linux: 40).\<close>

definition SYMLOOP_MAX :: nat where
  "SYMLOOP_MAX = 40"

definition has_null :: "path \<Rightarrow> bool" where
  "has_null p = (CHR 0x00 \<in> set (concat p))"

text \<open>
  The kernel's path walk, as \<^verbatim>\<open>stat\<close> and \<^verbatim>\<open>open\<close> do it: every component is looked up in a
  directory, \<^verbatim>\<open>..\<close> is the parent, a link is replaced by its target. \<open>cur\<close> is the link-free
  path reached so far. The result is the location of the last component, which alone may
  not exist yet (so that \<^verbatim>\<open>open\<close> can create it).
\<close>

fun namei :: "nat \<Rightarrow> node \<Rightarrow> path \<Rightarrow> string list \<Rightarrow> exn + path" where
  "namei fuel fs cur [] = Inr cur"
| "namei fuel fs cur (name # rest) =
     (case lookup fs cur of
        Some (Dir es) \<Rightarrow>
          if name = [] \<or> name = ''.'' then namei fuel fs cur rest
          else if name = ''..'' then namei fuel fs (butlast cur) rest
          else (case lookup fs (cur @ [name]) of
                  Some (Link target) \<Rightarrow>
                    (case fuel of
                       0 \<Rightarrow> Inl (OSError ''[Errno 40] Too many levels of symbolic links'')
                     | Suc fuel' \<Rightarrow>
                         namei fuel' fs (if startswith target ''/'' then [] else cur)
                           (split_sep CHR ''/'' target @ rest))
                | Some n \<Rightarrow> namei fuel fs (cur @ [name]) rest
                | None \<Rightarrow>
                    if rest = [] then Inr (cur @ [name])
                    else Inl (OSError ''[Errno 2] No such file or directory''))
      | Some n \<Rightarrow> Inl (OSError ''[Errno 20] Not a directory'')
      | None \<Rightarrow> Inl (OSError ''[Errno 2] No such file or directory''))"

text \<open>
  \<^verbatim>\<open>os.stat(p)\<close>: the location and the node a path leads to. Python refuses a path with a
  NUL character before it asks the kernel.
\<close>

definition os_stat :: "node \<Rightarrow> path \<Rightarrow> exn + (path \<times> node)" where
  "os_stat fs p =
     (if has_null p then Inl (ValueError ''embedded null byte'')
      else (case namei SYMLOOP_MAX fs [] p of
              Inl e \<Rightarrow> Inl e
            | Inr loc \<Rightarrow>
                (case lookup fs loc of
                   None \<Rightarrow> Inl (OSError ''[Errno 2] No such file or directory'')
                 | Some n \<Rightarrow> Inr (loc, n))))"

text \<open>\<^verbatim>\<open>Path.exists()\<close>: whether \<^verbatim>\<open>stat\<close> succeeds; any error, \<^verbatim>\<open>ValueError\<close> too, is "no".\<close>

definition path_exists :: "node \<Rightarrow> path \<Rightarrow> bool" where
  "path_exists fs p = (case os_stat fs p of Inl e \<Rightarrow> False | Inr r \<Rightarrow> True)"

text \<open>\<^verbatim>\<open>open(p, "r")\<close> and reading all of it: the bytes of the file.\<close>

definition read_bytes :: "node \<Rightarrow> path \<Rightarrow> exn + string" where
  "read_bytes fs p =
     (case os_stat fs p of
        Inl e \<Rightarrow> Inl e
      | Inr (loc, File bs) \<Rightarrow> Inr bs
      | Inr (loc, Dir es) \<Rightarrow> Inl (OSError ''[Errno 21] Is a directory'')
      | Inr (loc, Link t) \<Rightarrow> Inl (OSError ''[Errno 40] Too many levels of symbolic links''))"

text \<open>
  Reading in text mode with the default \<^verbatim>\<open>newline=None\<close>: universal newlines, every
  \<^verbatim>\<open>\r\n\<close> and every other \<^verbatim>\<open>\r\<close> is returned as \<^verbatim>\<open>\n\<close>.
\<close>

fun universal_newlines :: "string \<Rightarrow> string" where
  "universal_newlines [] = []"
| "universal_newlines [a] = (if a = CHR 0x0D then [CHR 0x0A] else [a])"
| "universal_newlines (a # b # cs) =
     (if a = CHR 0x0D then
        (if b = CHR 0x0A then CHR 0x0A # universal_newlines cs
         else CHR 0x0A # universal_newlines (b # cs))
      else a # universal_newlines (b # cs))"

text \<open>\<^verbatim>\<open>with open(p, "r", encoding="utf-8") as f: content = f.read()\<close>\<close>

definition read_text :: "node \<Rightarrow> path \<Rightarrow> exn + string" where
  "read_text fs p =
     (case read_bytes fs p of
        Inl e \<Rightarrow> Inl e
      | Inr bs \<Rightarrow>
          (case decode_utf8 bs of
             Inl e \<Rightarrow> Inl e
           | Inr s \<Rightarrow> Inr (universal_newlines s)))"

text \<open>
  \<^verbatim>\<open>with open(p, "w", encoding="utf-8") as f: f.write(content)\<close>: the file is created or
  replaced at the location the path leads to. On POSIX a written \<^verbatim>\<open>\n\<close> stays \<^verbatim>\<open>\n\<close>, and
  the bytes stored are the UTF-8 encoding of the text.
\<close>

definition write_text :: "node \<Rightarrow> path \<Rightarrow> string \<Rightarrow> exn + node" where
  "write_text fs p content =
     (if has_null p then Inl (ValueError ''embedded null byte'')
      else (case namei SYMLOOP_MAX fs [] p of
              Inl e \<Rightarrow> Inl e
            | Inr loc \<Rightarrow>
                (case lookup fs loc of
                   Some (Dir es) \<Rightarrow> Inl (OSError ''[Errno 21] Is a directory'')
                 | Some (Link t) \<Rightarrow>
                     Inl (OSError ''[Errno 40] Too many levels of symbolic links'')
                 | Some (File bs) \<Rightarrow> Inr (put fs loc (File content))
                 | None \<Rightarrow> Inr (put fs loc (File content)))))"

subsection \<open>\<^verbatim>\<open>pathlib\<close>\<close>

text \<open>
  The components \<^verbatim>\<open>pathlib\<close> keeps of a path string: empty ones and \<^verbatim>\<open>.\<close> are dropped,
  \<^verbatim>\<open>..\<close> stays.
\<close>

definition parts :: "string \<Rightarrow> string list" where
  "parts s = filter (\<lambda>c. c \<noteq> [] \<and> c \<noteq> ''.'') (split_sep CHR ''/'' s)"

text \<open>\<^verbatim>\<open>base / filename\<close>: an absolute right operand replaces the left one.\<close>

definition joinpath :: "path \<Rightarrow> string \<Rightarrow> path" where
  "joinpath base filename =
     (if startswith filename ''/'' then parts filename else base @ parts filename)"

text \<open>
  \<^verbatim>\<open>os.path.realpath\<close>, not strict: as the kernel's walk, but a component that does not
  exist is taken as written. \<open>path\<close> is the resolved path so far, \<open>rest\<close> what is left to
  resolve. \<^verbatim>\<open>lstat\<close> raises \<^verbatim>\<open>ValueError\<close> on a NUL character. A walk that follows more links
  than the kernel allows is what \<^verbatim>\<open>Path.resolve\<close> reports as a symlink loop.
\<close>

fun realpath :: "nat \<Rightarrow> node \<Rightarrow> path \<Rightarrow> string list \<Rightarrow> exn + path" where
  "realpath fuel fs path [] = Inr path"
| "realpath fuel fs path (name # rest) =
     (if name = [] \<or> name = ''.'' then realpath fuel fs path rest
      else if name = ''..'' then realpath fuel fs (butlast path) rest
      else if CHR 0x00 \<in> set name then Inl (ValueError ''embedded null byte'')
      else (case lookup fs (path @ [name]) of
              Some (Link target) \<Rightarrow>
                (case fuel of
                   0 \<Rightarrow> Inl (RuntimeError ''Symlink loop'')
                 | Suc fuel' \<Rightarrow>
                     realpath fuel' fs (if startswith target ''/'' then [] else path)
                       (split_sep CHR ''/'' target @ rest))
            | _ \<Rightarrow> realpath fuel fs (path @ [name]) rest))"

text \<open>\<^verbatim>\<open>Path.resolve()\<close> of an absolute path.\<close>

definition resolve :: "node \<Rightarrow> path \<Rightarrow> exn + path" where
  "resolve fs p = realpath SYMLOOP_MAX fs [] p"

text \<open>
  \<^verbatim>\<open>p.relative_to(other)\<close>: the components of \<open>p\<close> below \<open>other\<close>; \<^verbatim>\<open>ValueError\<close> when
  \<open>other\<close> is not a leading part of \<open>p\<close>.
\<close>

definition relative_to :: "path \<Rightarrow> path \<Rightarrow> exn + path" where
  "relative_to p other =
     (if prefix other p then Inr (drop (length other) p)
      else Inl (ValueError ''path is not in the subpath of the other''))"

subsection \<open>\<^verbatim>\<open>os.walk\<close> and the loop of \<^verbatim>\<open>serve_index\<close>\<close>

text \<open>
  \<^verbatim>\<open>os.walk\<close> puts an entry among \<^verbatim>\<open>dirs\<close> when \<^verbatim>\<open>entry.is_dir()\<close> holds, which follows a
  link, and among \<^verbatim>\<open>files\<close> otherwise. It descends into the \<^verbatim>\<open>dirs\<close> that are no links.
\<close>

definition entry_is_dir :: "node \<Rightarrow> path \<Rightarrow> string \<Rightarrow> node \<Rightarrow> bool" where
  "entry_is_dir fs cur name n =
     (case n of
        Dir es \<Rightarrow> True
      | File bs \<Rightarrow> False
      | Link t \<Rightarrow> (case os_stat fs (cur @ [name]) of Inr (loc, Dir es) \<Rightarrow> True | _ \<Rightarrow> False))"

text \<open>\<^verbatim>\<open>os.path.relpath(os.path.join(root, file), SCRIPT_DIR)\<close> for a file below it.\<close>

definition relpath :: "path \<Rightarrow> string" where
  "relpath rel = join_sep CHR ''/'' rel"

text \<open>
  The \<^verbatim>\<open>for root, dirs, files in os.walk(SCRIPT_DIR)\<close> loop, from the directory at location
  \<open>cur\<close>, which is \<open>rel\<close> below \<^verbatim>\<open>SCRIPT_DIR\<close>: the hidden names are taken out of \<^verbatim>\<open>dirs\<close>, so
  the walk never enters them, and the files that pass the test are appended.
\<close>

fun walk_md :: "node \<Rightarrow> path \<Rightarrow> path \<Rightarrow> node \<Rightarrow> string list" where
  "walk_md fs cur rel (Dir es) =
     [relpath (rel @ [file]).
        (file, n) \<leftarrow> es, \<not> entry_is_dir fs cur file n,
        endswith file ''.md'' \<and> \<not> startswith file ''.'']
     @ concat (map (\<lambda>(d, n).
         if \<not> startswith d ''.'' then
           (case n of Dir es' \<Rightarrow> walk_md fs (cur @ [d]) (rel @ [d]) n | _ \<Rightarrow> [])
         else []) es)"
| "walk_md fs cur rel n = []"

definition md_files :: "node \<Rightarrow> path \<Rightarrow> string list" where
  "md_files fs script_dir =
     sort (case os_stat fs script_dir of
             Inr (loc, Dir es) \<Rightarrow> walk_md fs loc [] (Dir es)
           | _ \<Rightarrow> [])"

subsection \<open>Requests, responses and what a handler does\<close>

text \<open>
  Of a request the handlers use the path component of its URL
  (\<^verbatim>\<open>urllib.parse.urlparse(self.path).path\<close>), the value of
  \<^verbatim>\<open>int(self.headers["Content-Length"])\<close> (an integer, or the exception that expression
  raises when the header is missing or no number) and the bytes the client sends after the
  headers.
\<close>

record request =
  url_path :: string
  content_length :: "exn + int"
  rfile :: string

text \<open>\<^verbatim>\<open>self.rfile.read(n)\<close>: at most \<open>n\<close> bytes; all of them for a negative \<open>n\<close>.\<close>

definition rfile_read :: "string \<Rightarrow> int \<Rightarrow> string" where
  "rfile_read bs n = (if n < 0 then bs else take (nat n) bs)"

text \<open>
  A page is the template of its kind with the values the f-string interpolates; the JSON
  body is the dictionary given to \<^verbatim>\<open>json.dumps\<close>. A response is either a call of
  \<^verbatim>\<open>send_error(code, message)\<close> or a status, the headers sent and a body.
\<close>

datatype jval = JBool bool | JStr string

datatype body =
    IndexPage "string list"
  | ViewerPage string string
  | EditorPage string string
  | JsonBody "(string \<times> jval) list"

datatype response =
    SendError nat string
  | Response nat "(string \<times> string) list" body

text \<open>
  What the client gets: nothing, a response, whatever the inherited static file handler
  (\<^verbatim>\<open>super().do_GET()\<close>) answers, or nothing because an exception left the handler.
\<close>

datatype reply = NoReply | Reply response | StaticFile | Uncaught exn

text \<open>The calls of \<^verbatim>\<open>open\<close> a handler makes, with the path it passes.\<close>

datatype fileop = OpenRead path | OpenWrite path

text \<open>A handler returns the file system it leaves, its reply and its calls of \<^verbatim>\<open>open\<close>.\<close>

type_synonym outcome = "node \<times> reply \<times> fileop list"

subsection \<open>The handlers\<close>

text \<open>
  \<^verbatim>\<open>SCRIPT_DIR\<close> is the parameter \<open>script_dir\<close>, an absolute path. The Markdown library
  (\<^verbatim>\<open>markdown.markdown\<close> with the five extensions) is the parameter \<open>markdown\<close>: it returns
  an HTML fragment or raises.
\<close>

definition serve_index :: "node \<Rightarrow> path \<Rightarrow> outcome" where
  "serve_index fs script_dir =
     (fs,
      Reply (Response 200 [(''Content-type'', ''text/html; charset=utf-8'')]
        (IndexPage (md_files fs script_dir))),
      [])"

definition serve_markdown ::
  "(string \<Rightarrow> exn + string) \<Rightarrow> node \<Rightarrow> path \<Rightarrow> string \<Rightarrow> outcome" where
  "serve_markdown markdown fs script_dir filename =
     (let filepath = joinpath script_dir filename in
      if \<not> path_exists fs filepath
      then (fs, Reply (SendError 404 (''File not found: '' @ filename)), [])
      else
        (case read_text fs filepath of
           Inl e \<Rightarrow>
             (fs, Reply (SendError 500 (''Error reading file: '' @ str_exn e)),
              [OpenRead filepath])
         | Inr content \<Rightarrow>
             (case markdown content of
                Inl e \<Rightarrow>
                  (fs, Reply (SendError 500 (''Error reading file: '' @ str_exn e)),
                   [OpenRead filepath])
              | Inr html_content \<Rightarrow>
                  (fs,
                   Reply (Response 200 [(''Content-type'', ''text/html; charset=utf-8'')]
                     (ViewerPage filename html_content)),
                   [OpenRead filepath]))))"

text \<open>
  \<^verbatim>\<open>content.replace("\\", "\\\\").replace("`", "\\`").replace("$", "\\$")\<close>
  (\<open>0x5C\<close> is the backslash, \<open>0x60\<close> the backtick).
\<close>

definition content_escaped :: "string \<Rightarrow> string" where
  "content_escaped content =
     replace_all ''$'' [CHR 0x5C, CHR ''$'']
       (replace_all [CHR 0x60] [CHR 0x5C, CHR 0x60]
          (replace_all [CHR 0x5C] [CHR 0x5C, CHR 0x5C] content))"

definition serve_editor :: "node \<Rightarrow> path \<Rightarrow> string \<Rightarrow> outcome" where
  "serve_editor fs script_dir filename =
     (let filepath = joinpath script_dir filename in
      if \<not> path_exists fs filepath
      then (fs, Reply (SendError 404 (''File not found: '' @ filename)), [])
      else
        (case read_text fs filepath of
           Inl e \<Rightarrow>
             (fs, Reply (SendError 500 (''Error reading file: '' @ str_exn e)),
              [OpenRead filepath])
         | Inr content \<Rightarrow>
             (fs,
              Reply (Response 200 [(''Content-type'', ''text/html; charset=utf-8'')]
                (EditorPage filename (content_escaped content))),
              [OpenRead filepath])))"

text \<open>
  The security check of \<^verbatim>\<open>save_markdown\<close>:
  \<^verbatim>\<open>filepath.resolve().relative_to(SCRIPT_DIR.resolve())\<close>, the receiver first.
\<close>

definition path_guard :: "node \<Rightarrow> path \<Rightarrow> string \<Rightarrow> exn + path" where
  "path_guard fs script_dir filename =
     (case resolve fs (joinpath script_dir filename) of
        Inl e \<Rightarrow> Inl e
      | Inr resolved \<Rightarrow>
          (case resolve fs script_dir of
             Inl e \<Rightarrow> Inl e
           | Inr resolved_dir \<Rightarrow> relative_to resolved resolved_dir))"

text \<open>The \<^verbatim>\<open>except Exception\<close> branch of \<^verbatim>\<open>save_markdown\<close>.\<close>

definition save_failed :: "node \<Rightarrow> exn \<Rightarrow> fileop list \<Rightarrow> outcome" where
  "save_failed fs e ops =
     (fs,
      Reply (Response 500 [(''Content-type'', ''application/json'')]
        (JsonBody [(''success'', JBool False), (''error'', JStr (str_exn e))])),
      ops)"

definition save_markdown :: "node \<Rightarrow> path \<Rightarrow> request \<Rightarrow> string \<Rightarrow> outcome" where
  "save_markdown fs script_dir req filename =
     (let filepath = joinpath script_dir filename in
      case path_guard fs script_dir filename of
        Inl e \<Rightarrow>
          if is_ValueError e then (fs, Reply (SendError 403 ''Access denied''), [])
          else (fs, Uncaught e, [])
      | Inr rel \<Rightarrow>
          (case content_length req of
             Inl e \<Rightarrow> save_failed fs e []
           | Inr n \<Rightarrow>
               (case decode_utf8 (rfile_read (rfile req) n) of
                  Inl e \<Rightarrow> save_failed fs e []
                | Inr content \<Rightarrow>
                    (case write_text fs filepath content of
                       Inl e \<Rightarrow> save_failed fs e [OpenWrite filepath]
                     | Inr fs' \<Rightarrow>
                         (fs',
                          Reply (Response 200 [(''Content-type'', ''application/json'')]
                            (JsonBody [(''success'', JBool True)])),
                          [OpenWrite filepath])))))"

definition do_GET ::
  "(string \<Rightarrow> exn + string) \<Rightarrow> node \<Rightarrow> path \<Rightarrow> request \<Rightarrow> outcome" where
  "do_GET markdown fs script_dir req =
     (let path = unquote (url_path req) in
      if path = ''/'' \<or> path = '''' then serve_index fs script_dir
      else if startswith path ''/edit/'' \<and> endswith path ''.md''
        then serve_editor fs script_dir (replace_first ''/edit/'' '''' path)
      else if endswith path ''.md''
        then serve_markdown markdown fs script_dir (lstrip path ''/'')
      else (fs, StaticFile, []))"

definition do_POST :: "node \<Rightarrow> path \<Rightarrow> request \<Rightarrow> outcome" where
  "do_POST fs script_dir req =
     (let path = unquote (url_path req) in
      if startswith path ''/save/'' \<and> endswith path ''.md''
        then save_markdown fs script_dir req (replace_first ''/save/'' '''' path)
      else (fs, NoReply, []))"

subsection \<open>The notions of the specification\<close>

text \<open>A canonical path is the root directory or a descendant of it.\<close>

definition inside :: "path \<Rightarrow> path \<Rightarrow> bool" where
  "inside root_dir p =
     (p = root_dir \<or> (length root_dir < length p \<and> take (length root_dir) p = root_dir))"

text \<open>
  Un-escaping what \<^verbatim>\<open>content_escaped\<close> escapes: a backslash before a backslash, a backtick
  or a dollar sign is dropped and the character after it kept.
\<close>

fun unescape :: "string \<Rightarrow> string" where
  "unescape (a # b # cs) =
     (if a = CHR 0x5C \<and> (b = CHR 0x5C \<or> b = CHR 0x60 \<or> b = CHR ''$'')
      then b # unescape cs
      else a # unescape (b # cs))"
| "unescape cs = cs"






subsection \<open>Notions for the proofs\<close>

text \<open>
  What a path walk can tell of the node at a path, and the places where \<^verbatim>\<open>open\<close> can write:
  an existing node, or a new name in an existing directory.
\<close>

datatype kind = Absent | IsFile | IsDir | IsLink string

fun kind_of :: "node option \<Rightarrow> kind" where
  "kind_of None = Absent"
| "kind_of (Some (File bs)) = IsFile"
| "kind_of (Some (Dir es)) = IsDir"
| "kind_of (Some (Link t)) = IsLink t"


text \<open>What \<^verbatim>\<open>content_escaped\<close> makes of one character.\<close>

definition escape_char :: "char \<Rightarrow> string" where
  "escape_char x =
     (if x = CHR 0x5C \<or> x = CHR 0x60 \<or> x = CHR ''$'' then [CHR 0x5C, x] else [x])"

subsection \<open>An example installation\<close>

text \<open>
  The server runs in \<^verbatim>\<open>/srv\<close>. Beside its documents the directory holds a hidden directory,
  a directory whose name ends in \<^verbatim>\<open>.md\<close>, a link that leads nowhere and a link out of the
  directory; \<^verbatim>\<open>/outside.md\<close> and \<^verbatim>\<open>/etc/passwd.md\<close> are not the server's.
\<close>

definition example_fs :: node where
  "example_fs =
     Dir [(''srv'',
           Dir [(''a.md'', File ''# Hi''),
                (''.hidden'', Dir [(''b.md'', File ''x'')]),
                (''sub'', Dir [(''c.md'', File ''c''), (''d.txt'', File ''d'')]),
                (''pictures.md'', Dir []),
                (''dangling.md'', Link ''nowhere''),
                (''etc'', Link ''/etc'')]),
          (''outside.md'', File ''secret''),
          (''etc'', Dir [(''passwd.md'', File ''root'')])]"

text \<open>A stand-in for the Markdown library that fails on one input.\<close>

definition example_markdown :: "string \<Rightarrow> exn + string" where
  "example_markdown s =
     (if s = ''c'' then Inl (Exception ''boom'') else Inr (''<p>'' @ s @ ''</p>''))"

text \<open>A request without a body, and one whose body has the declared length.\<close>

definition get :: "string \<Rightarrow> request" where
  "get p = \<lparr>url_path = p, content_length = Inl (TypeError ''no Content-Length''), rfile = ''''\<rparr>"

definition post :: "string \<Rightarrow> string \<Rightarrow> request" where
  "post p bs = \<lparr>url_path = p, content_length = Inr (int (length bs)), rfile = bs\<rparr>"


section \<open>Properties\<close>

subsection \<open>Auxiliary facts\<close>

lemma replace_first_prefix:
  "startswith s old \<Longrightarrow> replace_first old new s = new @ drop (length old) s"
  by (cases s) (auto simp: startswith_def)

lemma inside_iff_prefix: "inside r p = prefix r p"
proof
  assume "inside r p"
  then have "take (length r) p = r"
    by (auto simp: inside_def)
  then have "p = r @ drop (length r) p"
    by (metis append_take_drop_id)
  then show "prefix r p"
    by (metis prefixI)
next
  assume "prefix r p"
  then obtain zs where "p = r @ zs"
    by (auto simp: prefix_def)
  then show "inside r p"
    by (cases zs) (auto simp: inside_def)
qed

lemma endswith_md_nonempty: "endswith s ''.md'' \<Longrightarrow> s \<noteq> ''/'' \<and> s \<noteq> []"
  by (auto simp: endswith_def)

subsection \<open>The router\<close>

text \<open>
  C6. The router percent-decodes the URL path and then tests it in order. With \<open>path\<close> the
  decoded path: GET of \<^verbatim>\<open>/\<close> or of the empty path is the index page; GET of a path that
  starts with \<^verbatim>\<open>/edit/\<close> and ends with \<^verbatim>\<open>.md\<close> is the editor page for what follows
  \<^verbatim>\<open>/edit/\<close>, not the viewer; GET of any other path ending with \<^verbatim>\<open>.md\<close> is the viewer page
  for the path without its leading slashes; every other GET goes to the static file
  handler; POST of a path that starts with \<^verbatim>\<open>/save/\<close> and ends with \<^verbatim>\<open>.md\<close> saves to what
  follows \<^verbatim>\<open>/save/\<close>.
\<close>

theorem router_dispatch:
  "(let path = unquote (url_path req) in
    (path = ''/'' \<or> path = '''' \<longrightarrow>
       do_GET markdown fs script_dir req = serve_index fs script_dir) \<and>
    (startswith path ''/edit/'' \<and> endswith path ''.md'' \<longrightarrow>
       do_GET markdown fs script_dir req = serve_editor fs script_dir (drop 6 path)) \<and>
    (\<not> startswith path ''/edit/'' \<and> endswith path ''.md'' \<longrightarrow>
       do_GET markdown fs script_dir req =
         serve_markdown markdown fs script_dir (lstrip path ''/'')) \<and>
    (path \<noteq> ''/'' \<and> path \<noteq> '''' \<and> \<not> endswith path ''.md'' \<longrightarrow>
       do_GET markdown fs script_dir req = (fs, StaticFile, [])) \<and>
    (startswith path ''/save/'' \<and> endswith path ''.md'' \<longrightarrow>
       do_POST fs script_dir req = save_markdown fs script_dir req (drop 6 path)))"
  using endswith_md_nonempty[of "unquote (url_path req)"]
  by (auto simp: do_GET_def do_POST_def Let_def replace_first_prefix eval_nat_numeral)

theorem router_dispatch_witness:
  "do_GET example_markdown example_fs [''srv''] (get ''/'') = serve_index example_fs [''srv''] \<and>
   do_GET example_markdown example_fs [''srv''] (get ''/edit/sub%2Fc.md'')
     = serve_editor example_fs [''srv''] ''sub/c.md'' \<and>
   do_GET example_markdown example_fs [''srv''] (get ''/a.md'')
     = serve_markdown example_markdown example_fs [''srv''] ''a.md'' \<and>
   do_GET example_markdown example_fs [''srv''] (get ''/logo.png'')
     = (example_fs, StaticFile, []) \<and>
   do_POST example_fs [''srv''] (post ''/save/a.md'' ''new'')
     = save_markdown example_fs [''srv''] (post ''/save/a.md'' ''new'') ''a.md''"
proof -
  have 1: "unquote (url_path (get ''/'')) = ''/''"
    by code_simp
  have 2: "unquote (url_path (get ''/edit/sub%2Fc.md'')) = ''/edit/sub/c.md''"
    by code_simp
  have 3: "unquote (url_path (get ''/a.md'')) = ''/a.md''"
    by code_simp
  have 4: "unquote (url_path (get ''/logo.png'')) = ''/logo.png''"
    by code_simp
  have 5: "unquote (url_path (post ''/save/a.md'' ''new'')) = ''/save/a.md''"
    by code_simp
  have 6: "startswith ''/edit/sub/c.md'' ''/edit/'' \<and> endswith ''/edit/sub/c.md'' ''.md''"
    by code_simp
  have 7: "\<not> startswith ''/a.md'' ''/edit/'' \<and> endswith ''/a.md'' ''.md''
      \<and> lstrip ''/a.md'' ''/'' = ''a.md''"
    by code_simp
  have 8: "\<not> endswith ''/logo.png'' ''.md''"
    by code_simp
  have 9: "startswith ''/save/a.md'' ''/save/'' \<and> endswith ''/save/a.md'' ''.md''"
    by code_simp
  show ?thesis
    using router_dispatch[of "get ''/''" example_markdown example_fs "[''srv'']"]
      router_dispatch[of "get ''/edit/sub%2Fc.md''" example_markdown example_fs "[''srv'']"]
      router_dispatch[of "get ''/a.md''" example_markdown example_fs "[''srv'']"]
      router_dispatch[of "get ''/logo.png''" example_markdown example_fs "[''srv'']"]
      router_dispatch[of "post ''/save/a.md'' ''new''" example_markdown example_fs "[''srv'']"]
    unfolding 1 2 3 4 5 Let_def using 6 7 8 9 by simp
qed

text \<open>
  C10. A POST whose decoded path does not both start with \<^verbatim>\<open>/save/\<close> and end with \<^verbatim>\<open>.md\<close>
  does nothing: the file system is as before, no file is opened and nothing is sent to
  the client.
\<close>

theorem do_POST_other_path_no_action:
  "\<not> (startswith (unquote (url_path req)) ''/save/'' \<and>
      endswith (unquote (url_path req)) ''.md'')
   \<Longrightarrow> do_POST fs script_dir req = (fs, NoReply, [])"
  by (auto simp: do_POST_def Let_def)

theorem do_POST_other_path_no_action_witness:
  "do_POST example_fs [''srv''] (post ''/upload/notes.md'' ''hi'') = (example_fs, NoReply, [])"
  by (rule do_POST_other_path_no_action) code_simp

subsection \<open>Saving\<close>

text \<open>
  C3. A POST to the save endpoint (decoded path starting with \<^verbatim>\<open>/save/\<close> and ending with
  \<^verbatim>\<open>.md\<close>) whose path, joined to the root and made canonical, is neither the canonical root
  nor below it is answered with \<^verbatim>\<open>send_error(403, "Access denied")\<close>; no file is opened
  and the file system is left as it was.
\<close>

theorem save_escaping_path_403:
  "startswith (unquote (url_path req)) ''/save/'' \<Longrightarrow>
   endswith (unquote (url_path req)) ''.md'' \<Longrightarrow>
   resolve fs script_dir = Inr canonical_root \<Longrightarrow>
   resolve fs (joinpath script_dir (drop 6 (unquote (url_path req)))) = Inr canonical \<Longrightarrow>
   \<not> inside canonical_root canonical \<Longrightarrow>
   do_POST fs script_dir req = (fs, Reply (SendError 403 ''Access denied''), [])"
  by (simp add: do_POST_def Let_def replace_first_prefix save_markdown_def path_guard_def
      relative_to_def inside_iff_prefix eval_nat_numeral)

theorem save_escaping_path_403_witness:
  "do_POST example_fs [''srv''] (post ''/save/../outside.md'' ''overwritten'')
     = (example_fs, Reply (SendError 403 ''Access denied''), []) \<and>
   do_POST example_fs [''srv''] (post ''/save/etc/passwd.md'' ''overwritten'')
     = (example_fs, Reply (SendError 403 ''Access denied''), [])"
proof -
  have r: "resolve example_fs [''srv''] = Inr [''srv'']"
    by code_simp
  have a1: "startswith (unquote (url_path (post ''/save/../outside.md'' ''overwritten''))) ''/save/''"
    by code_simp
  have a2: "endswith (unquote (url_path (post ''/save/../outside.md'' ''overwritten''))) ''.md''"
    by code_simp
  have a3: "resolve example_fs (joinpath [''srv'']
      (drop 6 (unquote (url_path (post ''/save/../outside.md'' ''overwritten'')))))
      = Inr [''outside.md'']"
    by code_simp
  have a4: "\<not> inside [''srv''] [''outside.md'']"
    by code_simp
  have b1: "startswith (unquote (url_path (post ''/save/etc/passwd.md'' ''overwritten''))) ''/save/''"
    by code_simp
  have b2: "endswith (unquote (url_path (post ''/save/etc/passwd.md'' ''overwritten''))) ''.md''"
    by code_simp
  have b3: "resolve example_fs (joinpath [''srv'']
      (drop 6 (unquote (url_path (post ''/save/etc/passwd.md'' ''overwritten'')))))
      = Inr [''etc'', ''passwd.md'']"
    by code_simp
  have b4: "\<not> inside [''srv''] [''etc'', ''passwd.md'']"
    by code_simp
  show ?thesis
    using save_escaping_path_403[OF a1 a2 r a3 a4] save_escaping_path_403[OF b1 b2 r b3 b4]
    by simp
qed



subsection \<open>Reading: the viewer and the editor\<close>



subsection \<open>The editor's escaping\<close>

lemma replace_all_char:
  "replace_all [c] new s = concat (map (\<lambda>x. if x = c then new else [x]) s)"
proof (induction s)
  case Nil
  show ?case by (subst replace_all.simps) simp
next
  case (Cons a s)
  show ?case by (subst replace_all.simps) (simp add: Cons.IH)
qed

lemma content_escaped_map: "content_escaped s = concat (map escape_char s)"
  unfolding content_escaped_def replace_all_char
  by (induction s) (auto simp: escape_char_def)

lemma unescape_escape_char: "unescape (escape_char x @ t) = x # unescape t"
  by (cases t) (auto simp: escape_char_def)

lemma unescape_concat_escape: "unescape (concat (map escape_char s)) = s"
  by (induction s) (simp_all add: unescape_escape_char)

lemma filter_escape_char:
  "x \<noteq> CHR 0x5C \<Longrightarrow> filter ((=) x) (concat (map escape_char s)) = filter ((=) x) s"
  by (induction s) (auto simp: escape_char_def)

text \<open>
  C9. The editor page embeds the file content with backslashes escaped first, then
  backticks, then dollar signs. The result puts one backslash before each of these
  characters and changes nothing else; un-escaping it gives the content back exactly, and
  the backticks and dollar signs of the content are all still there, in their order.
\<close>

theorem editor_escaping_invertible:
  "content_escaped content =
     replace_all ''$'' [CHR 0x5C, CHR ''$'']
       (replace_all [CHR 0x60] [CHR 0x5C, CHR 0x60]
          (replace_all [CHR 0x5C] [CHR 0x5C, CHR 0x5C] content)) \<and>
   content_escaped content =
     concat (map (\<lambda>x. if x = CHR 0x5C \<or> x = CHR 0x60 \<or> x = CHR ''$''
                       then [CHR 0x5C, x] else [x]) content) \<and>
   unescape (content_escaped content) = content \<and>
   filter ((=) (CHR 0x60)) (content_escaped content) = filter ((=) (CHR 0x60)) content \<and>
   filter ((=) (CHR ''$'')) (content_escaped content) = filter ((=) (CHR ''$'')) content"
proof -
  have "content_escaped content = concat (map escape_char content)"
    by (rule content_escaped_map)
  moreover have "escape_char = (\<lambda>x. if x = CHR 0x5C \<or> x = CHR 0x60 \<or> x = CHR ''$''
                       then [CHR 0x5C, x] else [x])"
    by (rule ext) (simp add: escape_char_def)
  ultimately show ?thesis
    by (simp add: unescape_concat_escape filter_escape_char content_escaped_def[symmetric])
qed

theorem editor_escaping_invertible_witness:
  "content_escaped [CHR ''a'', CHR 0x60, CHR ''$'', CHR 0x5C, CHR ''n'']
     = [CHR ''a'', CHR 0x5C, CHR 0x60, CHR 0x5C, CHR ''$'', CHR 0x5C, CHR 0x5C, CHR ''n''] \<and>
   unescape [CHR ''a'', CHR 0x5C, CHR 0x60, CHR 0x5C, CHR ''$'', CHR 0x5C, CHR 0x5C, CHR ''n'']
     = [CHR ''a'', CHR 0x60, CHR ''$'', CHR 0x5C, CHR ''n'']"
proof -
  have e: "concat (map (\<lambda>x. if x = CHR 0x5C \<or> x = CHR 0x60 \<or> x = CHR ''$''
                       then [CHR 0x5C, x] else [x]) [CHR ''a'', CHR 0x60, CHR ''$'', CHR 0x5C, CHR ''n''])
     = [CHR ''a'', CHR 0x5C, CHR 0x60, CHR 0x5C, CHR ''$'', CHR 0x5C, CHR 0x5C, CHR ''n'']"
    by simp
  note t = editor_escaping_invertible[of "[CHR ''a'', CHR 0x60, CHR ''$'', CHR 0x5C, CHR ''n'']"]
  have a: "content_escaped [CHR ''a'', CHR 0x60, CHR ''$'', CHR 0x5C, CHR ''n'']
     = [CHR ''a'', CHR 0x5C, CHR 0x60, CHR 0x5C, CHR ''$'', CHR 0x5C, CHR 0x5C, CHR ''n'']"
    using t[THEN conjunct2, THEN conjunct1] unfolding e .
  have b: "unescape (content_escaped [CHR ''a'', CHR 0x60, CHR ''$'', CHR 0x5C, CHR ''n''])
     = [CHR ''a'', CHR 0x60, CHR ''$'', CHR 0x5C, CHR ''n'']"
    using t[THEN conjunct2, THEN conjunct2, THEN conjunct1] .
  show ?thesis
    using a b[unfolded a] by (intro conjI)
qed

subsection \<open>The path guard\<close>

text \<open>Resolving a path that continues resolves the continuation from where the path led.\<close>

lemma realpath_append:
  "realpath fuel fs cur p = Inr r \<Longrightarrow>
   \<exists>fuel'. realpath fuel fs cur (p @ q) = realpath fuel' fs r q"
proof (induction fuel fs cur p rule: realpath.induct)
  case (1 fuel fs path)
  then show ?case by auto
next
  case (2 fuel fs path name rest)
  show ?case
  proof (cases "name = [] \<or> name = ''.'' \<or> name = ''..'' \<or> CHR 0x00 \<in> set name")
    case True
    with "2.IH"(1,2) "2.prems" show ?thesis
      by (auto split: if_splits)
  next
    case False
    show ?thesis
    proof (cases "lookup fs (path @ [name])")
      case None
      with "2.IH" "2.prems" False show ?thesis by simp
    next
      case (Some n)
      show ?thesis
      proof (cases n)
        case (File bs)
        with "2.IH" "2.prems" False Some show ?thesis by simp
      next
        case (Dir es)
        with "2.IH" "2.prems" False Some show ?thesis by simp
      next
        case (Link target)
        show ?thesis
        proof (cases fuel)
          case 0
          with "2.prems" False Some Link show ?thesis by simp
        next
          case (Suc fuel')
          with "2.IH" "2.prems" False Some Link show ?thesis by simp
        qed
      qed
    qed
  qed
qed

lemma parts_dotdot_outside: "parts ''../outside.md'' = [''..'', ''outside.md'']"
  by code_simp

lemma joinpath_dotdot_outside:
  "joinpath script_dir ''../outside.md'' = script_dir @ [''..'', ''outside.md'']"
  by (simp add: joinpath_def parts_dotdot_outside startswith_def)

lemma realpath_dotdot_outside:
  "\<forall>t. lookup fs (butlast r @ [''outside.md'']) \<noteq> Some (Link t) \<Longrightarrow>
   realpath fuel fs r [''..'', ''outside.md''] = Inr (butlast r @ [''outside.md''])"
  by (simp split: option.splits node.splits)

lemma not_prefix_sibling:
  "r \<noteq> [] \<Longrightarrow> last r \<noteq> x \<Longrightarrow> \<not> prefix r (butlast r @ [x])"
proof
  assume r: "r \<noteq> []" and l: "last r \<noteq> x" and p: "prefix r (butlast r @ [x])"
  have "length r = length (butlast r @ [x])"
    using r by simp
  moreover from p obtain zs where "butlast r @ [x] = r @ zs"
    by (auto simp: prefix_def)
  ultimately have "r = butlast r @ [x]"
    by (cases zs) auto
  then have "last r = x"
    by (metis last_snoc)
  with l show False by simp
qed

text \<open>
  C1. The path guard of \<^verbatim>\<open>save_markdown\<close> succeeds exactly when the canonical form of the
  root joined with the path is the canonical root or a descendant of it. When both
  canonical forms exist and the path leaves the root, the guard raises \<^verbatim>\<open>ValueError\<close> and the
  handler signals Access-Denied (403). In particular \<^verbatim>\<open>../outside.md\<close> is refused in this
  way, for every root whose canonical form is not \<^verbatim>\<open>/\<close> and is not itself named
  \<^verbatim>\<open>outside.md\<close>, when \<^verbatim>\<open>outside.md\<close> beside the root is no symbolic link (in these three
  cases the canonical form of the path can lie inside the root).
\<close>

theorem path_guard_iff_inside:
  "((\<exists>rel. path_guard fs script_dir p = Inr rel) \<longleftrightarrow>
      (\<exists>canonical_root canonical.
         resolve fs script_dir = Inr canonical_root \<and>
         resolve fs (joinpath script_dir p) = Inr canonical \<and>
         inside canonical_root canonical)) \<and>
   (resolve fs script_dir = Inr canonical_root \<and>
    resolve fs (joinpath script_dir p) = Inr canonical \<and>
    \<not> inside canonical_root canonical \<longrightarrow>
      (\<exists>m. path_guard fs script_dir p = Inl (ValueError m)) \<and>
      save_markdown fs script_dir req p = (fs, Reply (SendError 403 ''Access denied''), [])) \<and>
   (resolve fs script_dir = Inr canonical_root \<and>
    canonical_root \<noteq> [] \<and> last canonical_root \<noteq> ''outside.md'' \<and>
    (\<forall>t. lookup fs (butlast canonical_root @ [''outside.md'']) \<noteq> Some (Link t)) \<longrightarrow>
      (\<exists>m. path_guard fs script_dir ''../outside.md'' = Inl (ValueError m)) \<and>
      save_markdown fs script_dir req ''../outside.md'' =
        (fs, Reply (SendError 403 ''Access denied''), []))"
proof (intro conjI impI)
  show "(\<exists>rel. path_guard fs script_dir p = Inr rel) \<longleftrightarrow>
      (\<exists>canonical_root canonical.
         resolve fs script_dir = Inr canonical_root \<and>
         resolve fs (joinpath script_dir p) = Inr canonical \<and>
         inside canonical_root canonical)"
    by (auto simp: path_guard_def relative_to_def inside_iff_prefix split: sum.splits)
next
  assume a: "resolve fs script_dir = Inr canonical_root \<and>
    resolve fs (joinpath script_dir p) = Inr canonical \<and>
    \<not> inside canonical_root canonical"
  then show "\<exists>m. path_guard fs script_dir p = Inl (ValueError m)"
    by (simp add: path_guard_def relative_to_def inside_iff_prefix)
  from a show "save_markdown fs script_dir req p = (fs, Reply (SendError 403 ''Access denied''), [])"
    by (simp add: save_markdown_def path_guard_def relative_to_def inside_iff_prefix)
next
  assume a: "resolve fs script_dir = Inr canonical_root \<and>
    canonical_root \<noteq> [] \<and> last canonical_root \<noteq> ''outside.md'' \<and>
    (\<forall>t. lookup fs (butlast canonical_root @ [''outside.md'']) \<noteq> Some (Link t))"
  then obtain fuel' where
    "realpath SYMLOOP_MAX fs [] (script_dir @ [''..'', ''outside.md''])
       = realpath fuel' fs canonical_root [''..'', ''outside.md'']"
    using realpath_append[of SYMLOOP_MAX fs "[]" script_dir canonical_root
        "[''..'', ''outside.md'']"]
    unfolding resolve_def by blast
  moreover from a have "realpath fuel' fs canonical_root [''..'', ''outside.md'']
      = Inr (butlast canonical_root @ [''outside.md''])"
    by (intro realpath_dotdot_outside) blast
  ultimately have r: "resolve fs (joinpath script_dir ''../outside.md'')
      = Inr (butlast canonical_root @ [''outside.md''])"
    by (simp only: resolve_def joinpath_dotdot_outside)
  from a have n: "\<not> prefix canonical_root (butlast canonical_root @ [''outside.md''])"
    by (intro not_prefix_sibling) simp_all
  from a r n show "\<exists>m. path_guard fs script_dir ''../outside.md'' = Inl (ValueError m)"
    by (simp add: path_guard_def relative_to_def)
  from a r n show "save_markdown fs script_dir req ''../outside.md'' =
        (fs, Reply (SendError 403 ''Access denied''), [])"
    by (simp add: save_markdown_def path_guard_def relative_to_def)
qed


theorem path_guard_iff_inside_witness:
  "(\<exists>rel. path_guard example_fs [''srv''] ''sub/c.md'' = Inr rel) \<and>
   (\<exists>m. path_guard example_fs [''srv''] ''etc/passwd.md'' = Inl (ValueError m)) \<and>
   save_markdown example_fs [''srv''] (post ''/save/etc/passwd.md'' ''x'') ''etc/passwd.md'' =
     (example_fs, Reply (SendError 403 ''Access denied''), []) \<and>
   (\<exists>m. path_guard example_fs [''srv''] ''../outside.md'' = Inl (ValueError m)) \<and>
   save_markdown example_fs [''srv''] (post ''/save/../outside.md'' ''x'') ''../outside.md'' =
     (example_fs, Reply (SendError 403 ''Access denied''), [])"
proof -
  have r: "resolve example_fs [''srv''] = Inr [''srv'']"
    by code_simp
  have c: "resolve example_fs (joinpath [''srv''] ''sub/c.md'') = Inr [''srv'', ''sub'', ''c.md'']"
    by code_simp
  have ci: "inside [''srv''] [''srv'', ''sub'', ''c.md'']"
    by code_simp
  have e: "resolve example_fs (joinpath [''srv''] ''etc/passwd.md'') = Inr [''etc'', ''passwd.md'']"
    by code_simp
  have ei: "\<not> inside [''srv''] [''etc'', ''passwd.md'']"
    by code_simp
  have o: "[''srv''] \<noteq> [] \<and> last [''srv''] \<noteq> ''outside.md'' \<and>
      (\<forall>t. lookup example_fs (butlast [''srv''] @ [''outside.md'']) \<noteq> Some (Link t))"
    by (simp add: example_fs_def)
  have 1: "\<exists>rel. path_guard example_fs [''srv''] ''sub/c.md'' = Inr rel"
    using path_guard_iff_inside[where fs = example_fs and script_dir = "[''srv'']"
        and p = "''sub/c.md''", THEN conjunct1, THEN iffD2] r c ci
    by blast
  have 2: "(\<exists>m. path_guard example_fs [''srv''] ''etc/passwd.md'' = Inl (ValueError m)) \<and>
     save_markdown example_fs [''srv''] (post ''/save/etc/passwd.md'' ''x'') ''etc/passwd.md'' =
       (example_fs, Reply (SendError 403 ''Access denied''), [])"
    using path_guard_iff_inside[where fs = example_fs and script_dir = "[''srv'']"
        and p = "''etc/passwd.md''" and req = "post ''/save/etc/passwd.md'' ''x''",
        THEN conjunct2, THEN conjunct1, THEN mp, OF conjI[OF r conjI[OF e ei]]] .
  have 3: "(\<exists>m. path_guard example_fs [''srv''] ''../outside.md'' = Inl (ValueError m)) \<and>
     save_markdown example_fs [''srv''] (post ''/save/../outside.md'' ''x'') ''../outside.md'' =
       (example_fs, Reply (SendError 403 ''Access denied''), [])"
    using path_guard_iff_inside[where fs = example_fs and script_dir = "[''srv'']"
        and req = "post ''/save/../outside.md'' ''x''",
        THEN conjunct2, THEN conjunct2, THEN mp, OF conjI[OF r o]] .
  from 1 2 3 show ?thesis
    by (intro conjI) (elim conjE, assumption)+
qed

subsection \<open>Reads are not guarded\<close>

text \<open>
  C2. The claim that no read handler opens a file outside the root fails on the code: the
  viewer and the editor join the requested name to the root and open it without the check
  that \<^verbatim>\<open>save_markdown\<close> makes. In the example installation, rooted at \<^verbatim>\<open>/srv\<close>, GET of
  \<^verbatim>\<open>/../outside.md\<close>, of \<^verbatim>\<open>/edit/../outside.md\<close> and of \<^verbatim>\<open>/edit//etc/passwd.md\<close> open
  \<^verbatim>\<open>/outside.md\<close> and \<^verbatim>\<open>/etc/passwd.md\<close>, which are not inside the root, and answer 200 with
  their content; the POST to \<^verbatim>\<open>/save/../outside.md\<close> is refused with 403.
\<close>

theorem read_handlers_leave_root:
  "do_GET example_markdown example_fs [''srv''] (get ''/%2e%2e/outside.md'') =
     (example_fs,
      Reply (Response 200 [(''Content-type'', ''text/html; charset=utf-8'')]
        (ViewerPage ''../outside.md'' ''<p>secret</p>'')),
      [OpenRead [''srv'', ''..'', ''outside.md'']]) \<and>
   do_GET example_markdown example_fs [''srv''] (get ''/../outside.md'') =
     (example_fs,
      Reply (Response 200 [(''Content-type'', ''text/html; charset=utf-8'')]
        (ViewerPage ''../outside.md'' ''<p>secret</p>'')),
      [OpenRead [''srv'', ''..'', ''outside.md'']]) \<and>
   do_GET example_markdown example_fs [''srv''] (get ''/edit/../outside.md'') =
     (example_fs,
      Reply (Response 200 [(''Content-type'', ''text/html; charset=utf-8'')]
        (EditorPage ''../outside.md'' ''secret'')),
      [OpenRead [''srv'', ''..'', ''outside.md'']]) \<and>
   do_GET example_markdown example_fs [''srv''] (get ''/edit//etc/passwd.md'') =
     (example_fs,
      Reply (Response 200 [(''Content-type'', ''text/html; charset=utf-8'')]
        (EditorPage ''/etc/passwd.md'' ''root'')),
      [OpenRead [''etc'', ''passwd.md'']]) \<and>
   resolve example_fs [''srv''] = Inr [''srv''] \<and>
   resolve example_fs [''srv'', ''..'', ''outside.md''] = Inr [''outside.md''] \<and>
   inside [''srv''] [''outside.md''] = False \<and>
   resolve example_fs [''etc'', ''passwd.md''] = Inr [''etc'', ''passwd.md''] \<and>
   inside [''srv''] [''etc'', ''passwd.md''] = False \<and>
   do_POST example_fs [''srv''] (post ''/save/../outside.md'' ''x'') =
     (example_fs, Reply (SendError 403 ''Access denied''), [])"
  by code_simp

subsection \<open>The file lister\<close>









subsection \<open>Saving and reading back\<close>

text \<open>Replacing or adding a file changes nothing that a path walk sees elsewhere.\<close>

lemma kind_of_IsDir: "kind_of x = IsDir \<longleftrightarrow> (\<exists>es. x = Some (Dir es))"
  by (cases x rule: kind_of.cases) auto



lemma kind_of_Absent: "kind_of x = Absent \<longleftrightarrow> x = None"
  by (cases x rule: kind_of.cases) auto








lemma namei_step:
  "namei fuel fs cur (name # rest) =
     (case kind_of (lookup fs cur) of
        IsDir \<Rightarrow>
          if name = [] \<or> name = ''.'' then namei fuel fs cur rest
          else if name = ''..'' then namei fuel fs (butlast cur) rest
          else (case kind_of (lookup fs (cur @ [name])) of
                  IsLink target \<Rightarrow>
                    (case fuel of
                       0 \<Rightarrow> Inl (OSError ''[Errno 40] Too many levels of symbolic links'')
                     | Suc fuel' \<Rightarrow>
                         namei fuel' fs (if startswith target ''/'' then [] else cur)
                           (split_sep CHR ''/'' target @ rest))
                | Absent \<Rightarrow>
                    if rest = [] then Inr (cur @ [name])
                    else Inl (OSError ''[Errno 2] No such file or directory'')
                | _ \<Rightarrow> namei fuel fs (cur @ [name]) rest)
      | Absent \<Rightarrow> Inl (OSError ''[Errno 2] No such file or directory'')
      | _ \<Rightarrow> Inl (OSError ''[Errno 20] Not a directory''))"
  by (simp split: option.splits node.splits)


lemma write_text_Inr:
  "write_text fs p c = Inr fs' \<Longrightarrow>
   \<exists>loc. \<not> has_null p \<and> namei SYMLOOP_MAX fs [] p = Inr loc \<and>
     (kind_of (lookup fs loc) = Absent \<or> kind_of (lookup fs loc) = IsFile) \<and>
     fs' = put fs loc (File c)"
  by (auto simp: write_text_def split: if_splits sum.splits option.splits node.splits)










subsection \<open>Writes stay inside the root\<close>

text \<open>
  Where the kernel's walk and \<^verbatim>\<open>realpath\<close> both arrive, they arrive at the same place. So a
  save that opens a file opens it at the canonical path that the guard has found inside
  the canonical root, and changes the file system there only.
\<close>

lemma namei_realpath_agree:
  "namei fuel fs cur p = Inr loc \<Longrightarrow> realpath fuel fs cur p = Inr canonical \<Longrightarrow>
   canonical = loc"
proof (induction fuel fs cur p rule: namei.induct)
  case (1 fuel fs cur)
  then show ?case by simp
next
  case (2 fuel fs cur name rest)
  from "2.prems"(1) have d: "kind_of (lookup fs cur) = IsDir"
    unfolding namei_step by (auto split: kind.splits)
  then obtain es where es: "lookup fs cur = Some (Dir es)"
    by (auto simp: kind_of_IsDir)
  show ?case
  proof (cases "name = [] \<or> name = ''.''")
    case True
    with "2.prems" d "2.IH"(1)[OF es refl True] show ?thesis
      unfolding namei_step by simp
  next
    case special: False
    show ?thesis
    proof (cases "name = ''..''")
      case True
      with "2.prems" d special "2.IH"(2)[OF es refl special True] show ?thesis
        unfolding namei_step by simp
    next
      case dots: False
      from "2.prems"(2) special dots have nul: "CHR 0x00 \<notin> set name"
        by (auto split: if_splits)
      show ?thesis
      proof (cases "lookup fs (cur @ [name])")
        case None
        with "2.prems" d special dots nul show ?thesis
          unfolding namei_step by (auto split: if_splits)
      next
        case (Some n)
        show ?thesis
        proof (cases n)
          case (File bs)
          with "2.prems" d special dots nul Some
            "2.IH"(3)[OF es refl special dots Some File]
          show ?thesis
            unfolding namei_step by simp
        next
          case (Dir es')
          with "2.prems" d special dots nul Some
            "2.IH"(4)[OF es refl special dots Some Dir]
          show ?thesis
            unfolding namei_step by simp
        next
          case (Link t)
          show ?thesis
          proof (cases fuel)
            case 0
            with "2.prems" d special dots nul Some Link show ?thesis
              unfolding namei_step by simp
          next
            case (Suc fuel')
            with "2.prems" d special dots nul Some Link
              "2.IH"(5)[OF es refl special dots Some Link Suc]
            show ?thesis
              unfolding namei_step by simp
          qed
        qed
      qed
    qed
  qed
qed

lemma save_writes_inside_root:
  assumes "save_markdown fs script_dir req filename = (fs', r, ops)" and "ops \<noteq> []"
  shows "\<exists>canonical_root loc.
           resolve fs script_dir = Inr canonical_root \<and>
           resolve fs (joinpath script_dir filename) = Inr loc \<and>
           inside canonical_root loc \<and>
           ops = [OpenWrite (joinpath script_dir filename)] \<and>
           (fs' = fs \<or> (\<exists>content. fs' = put fs loc (File content)))"
proof -
  let ?p = "joinpath script_dir filename"
  from assms obtain rel where g: "path_guard fs script_dir filename = Inr rel"
    by (auto simp: save_markdown_def save_failed_def Let_def split: sum.splits if_splits)
  then obtain canonical_root canonical where
    r: "resolve fs script_dir = Inr canonical_root" and
    c: "resolve fs ?p = Inr canonical" and
    i: "inside canonical_root canonical"
    by (auto simp: path_guard_def relative_to_def inside_iff_prefix split: sum.splits if_splits)
  from assms g have ops: "ops = [OpenWrite ?p]"
    by (auto simp: save_markdown_def save_failed_def Let_def split: sum.splits)
  have "fs' = fs \<or> (\<exists>content. fs' = put fs canonical (File content))"
  proof (cases "fs' = fs")
    case False
    with assms g obtain content where "write_text fs ?p content = Inr fs'"
      by (auto simp: save_markdown_def save_failed_def Let_def split: sum.splits)
    then obtain loc where "namei SYMLOOP_MAX fs [] ?p = Inr loc" "fs' = put fs loc (File content)"
      using write_text_Inr by blast
    moreover from this(1) c have "canonical = loc"
      unfolding resolve_def by (rule namei_realpath_agree)
    ultimately show ?thesis by blast
  qed simp
  with r c i ops show ?thesis by blast
qed

end
